theory Spec2Isabelle
  imports Complex_Main
begin

section \<open>Python values that the pipeline passes around\<close>

text \<open>
  The three modules of the repository (\<^verbatim>\<open>preprocess_file.py\<close>,
  \<^verbatim>\<open>senti_download.py\<close>, \<^verbatim>\<open>img_processing.py\<close>) are glue
  around pandas, geopandas, shapely, rasterio and sentinelsat. The embedding keeps the
  control flow, the argument binding, the integer arithmetic and the exceptions of the
  Python text; what a library computes (an intersection, an area, a clipped raster, the
  answer of the archive) is a field of a record of library functions, which an
  operation that calls a library takes as its first argument.

  A raised exception is the \<open>Inl\<close> of a sum; \<open>and_then\<close> sequences two steps and
  stops at the first exception, as the interpreter does.
\<close>

datatype error =
    AttributeError
  | FileNotFoundError
  | IndexError
  | KeyError
  | OSError
  | TypeError
  | UnboundLocalError
  | ValueError
  | ZeroDivisionError
  | RasterioIOError
  | ApiError
  | Exception string

definition and_then :: "error + 'a \<Rightarrow> ('a \<Rightarrow> error + 'b) \<Rightarrow> error + 'b" where
  "and_then r f = (case r of Inl e \<Rightarrow> Inl e | Inr x \<Rightarrow> f x)"

definition digit_char :: "nat \<Rightarrow> char" where
  "digit_char n = ''0123456789'' ! (n mod 10)"

text \<open>\<open>str k\<close> of a non-negative integer, as an f-string prints it.\<close>

fun str_nat :: "nat \<Rightarrow> string" where
  "str_nat n = (if n < 10 then [digit_char n] else str_nat (n div 10) @ [digit_char (n mod 10)])"

declare str_nat.simps [simp del]

section \<open>preprocess\_file.py: flattening MultiPolygons\<close>

text \<open>
  A shapely geometry, as far as \<^verbatim>\<open>ProcessMultiPoly\<close> looks at it: its
  \<^verbatim>\<open>geom_type\<close> and, for a MultiPolygon, the polygons it iterates over. The
  polygon itself (\<open>'p\<close>) is opaque. A row of the geodataframe has the two columns the
  class reads and writes.
\<close>

datatype 'p geometry = Polygon 'p | MultiPolygon "'p list" | Point | LineString

fun geom_type :: "'p geometry \<Rightarrow> string" where
  "geom_type (Polygon _) = ''Polygon''"
| "geom_type (MultiPolygon _) = ''MultiPolygon''"
| "geom_type Point = ''Point''"
| "geom_type LineString = ''LineString''"

text \<open>
  \<^verbatim>\<open>list(row.geometry)\<close>: a multi-part geometry iterates over its parts; a
  single-part geometry of shapely 1.x is not iterable.
\<close>

fun geoms :: "'p geometry \<Rightarrow> error + 'p list" where
  "geoms (MultiPolygon ps) = Inr ps"
| "geoms _ = Inl TypeError"

record 'p gdf_row =
  name :: string
  geometry :: "'p geometry"

definition check_type :: "'p geometry \<Rightarrow> string \<Rightarrow> bool" where
  "check_type poly poly_type = (if geom_type poly = poly_type then True else False)"

text \<open>\<^verbatim>\<open>_row_by_type\<close>: the rows of the given type, or \<open>None\<close> when there is none.\<close>

definition row_by_type :: "'p gdf_row list \<Rightarrow> string \<Rightarrow> 'p gdf_row list option" where
  "row_by_type gdf poly_type =
     (if filter (\<lambda>x. check_type (geometry x) poly_type) gdf \<noteq> []
      then Some (filter (\<lambda>x. check_type (geometry x) poly_type) gdf)
      else None)"

text \<open>
  The body of the \<^verbatim>\<open>for idx, row in multipoly.iterrows()\<close> loop of
  \<^verbatim>\<open>_transform_multipoly\<close>: the dictionaries one row appends to
  \<^verbatim>\<open>tmp_list\<close>. \<^verbatim>\<open>list(row.geometry)[0]\<close> raises IndexError on a
  MultiPolygon with no part.
\<close>

definition expand_row :: "'p gdf_row \<Rightarrow> error + 'p gdf_row list" where
  "expand_row row =
     and_then (geoms (geometry row)) (\<lambda>parts.
       if length parts > 1
       then Inr (map (\<lambda>(k, p). \<lparr>name = name row @ ''_'' @ str_nat k, geometry = Polygon p\<rparr>)
                   (enumerate 0 parts))
       else (case parts of
               [] \<Rightarrow> Inl IndexError
             | p # _ \<Rightarrow> Inr [\<lparr>name = name row, geometry = Polygon p\<rparr>]))"

fun expand_rows :: "'p gdf_row list \<Rightarrow> error + 'p gdf_row list" where
  "expand_rows [] = Inr []"
| "expand_rows (row # rows) =
     and_then (expand_row row) (\<lambda>tmp.
       and_then (expand_rows rows) (\<lambda>rest. Inr (tmp @ rest)))"

text \<open>
  \<^verbatim>\<open>_transform_multipoly\<close>. With more than one row every MultiPolygon is
  expanded; with one row the \<^verbatim>\<open>else\<close> branch overwrites the geometry column
  with \<^verbatim>\<open>list(multipoly["geometry"].iloc[0])[0]\<close>, the first polygon of that
  row.
\<close>

definition transform_multipoly :: "'p gdf_row list \<Rightarrow> error + 'p gdf_row list" where
  "transform_multipoly multipoly =
     (if length multipoly > 1 then expand_rows multipoly
      else (case multipoly of
              [] \<Rightarrow> Inl IndexError
            | row # _ \<Rightarrow>
                and_then (geoms (geometry row)) (\<lambda>parts.
                  case parts of
                    [] \<Rightarrow> Inl IndexError
                  | p # _ \<Rightarrow> Inr (map (\<lambda>r. r\<lparr>geometry := Polygon p\<rparr>) multipoly))))"

text \<open>
  \<^verbatim>\<open>pd.concat\<close> drops the \<open>None\<close> entries of its list and raises ValueError
  when every entry is \<open>None\<close>.
\<close>

definition pd_concat :: "'a list option list \<Rightarrow> error + 'a list" where
  "pd_concat objs =
     (if list_all (\<lambda>x. x = None) objs then Inl ValueError
      else Inr (concat (map (\<lambda>x. case x of None \<Rightarrow> [] | Some df \<Rightarrow> df) objs)))"

definition preprocess_multipoly :: "'p gdf_row list \<Rightarrow> error + 'p gdf_row list" where
  "preprocess_multipoly gdf =
     (let multipoly_df = row_by_type gdf ''MultiPolygon'';
          poly_df = row_by_type gdf ''Polygon''
      in case (multipoly_df, poly_df) of
           (None, None) \<Rightarrow>
             Inl (Exception ''None Polygon was found. Data type not recognized.'')
         | (Some m, _) \<Rightarrow>
             and_then (transform_multipoly m) (\<lambda>poly_df_processed.
               pd_concat [Some poly_df_processed, poly_df])
         | (None, Some p) \<Rightarrow> Inr p)"

section \<open>Arrays, rasters and the file system\<close>

subsection \<open>Floating-point values\<close>

text \<open>
  A float is an exact rational or one of the three special values of IEEE arithmetic.
  Rounding (to float64 in the arithmetic, to float32 when an index is written) and the
  sign of a zero are not modelled: the integers of a band and their differences are exact
  in float64, so the quotient of the model differs from the pixel that is written by
  rounding only.
\<close>

datatype fval = Finite rat | PosInf | NegInf | NaN

fun fneg :: "fval \<Rightarrow> fval" where
  "fneg (Finite a) = Finite (- a)"
| "fneg PosInf = NegInf"
| "fneg NegInf = PosInf"
| "fneg NaN = NaN"

fun fadd :: "fval \<Rightarrow> fval \<Rightarrow> fval" where
  "fadd NaN _ = NaN"
| "fadd _ NaN = NaN"
| "fadd (Finite a) (Finite b) = Finite (a + b)"
| "fadd (Finite _) PosInf = PosInf"
| "fadd (Finite _) NegInf = NegInf"
| "fadd PosInf NegInf = NaN"
| "fadd NegInf PosInf = NaN"
| "fadd PosInf _ = PosInf"
| "fadd NegInf _ = NegInf"

definition fsub :: "fval \<Rightarrow> fval \<Rightarrow> fval" where
  "fsub a b = fadd a (fneg b)"

text \<open>
  numpy's true division of arrays: a zero divisor gives an infinity or NaN (with a
  RuntimeWarning), not an exception.
\<close>

fun fdiv :: "fval \<Rightarrow> fval \<Rightarrow> fval" where
  "fdiv NaN _ = NaN"
| "fdiv _ NaN = NaN"
| "fdiv (Finite a) (Finite b) =
     (if b \<noteq> 0 then Finite (a / b)
      else if a > 0 then PosInf else if a < 0 then NegInf else NaN)"
| "fdiv (Finite _) _ = Finite 0"
| "fdiv PosInf (Finite b) = (if b \<ge> 0 then PosInf else NegInf)"
| "fdiv NegInf (Finite b) = (if b \<ge> 0 then NegInf else PosInf)"
| "fdiv _ _ = NaN"

text \<open>
  Python's \<^verbatim>\<open>/\<close> on two floats (the areas that shapely returns): a zero divisor
  raises ZeroDivisionError.
\<close>

definition py_div :: "rat \<Rightarrow> rat \<Rightarrow> error + rat" where
  "py_div a b = (if b = 0 then Inl ZeroDivisionError else Inr (a / b))"

subsection \<open>numpy arrays\<close>

text \<open>
  A raster band array has three axes (band, row, column) and is a list of lists of lists.
  Its dtype is an unsigned integer type of \<open>bits\<close> bits, whose arithmetic wraps around
  modulo \<open>2 ^ bits\<close>, or a float type. The spectral bands of a Sentinel-2 product are
  \<^verbatim>\<open>uint16\<close> rasters.
\<close>

datatype ndarray = UIntArray nat "nat list list list" | FloatArray "fval list list list"

fun collect :: "(error + 'a) list \<Rightarrow> error + 'a list" where
  "collect [] = Inr []"
| "collect (r # rs) = and_then r (\<lambda>x. and_then (collect rs) (\<lambda>xs. Inr (x # xs)))"

text \<open>
  Broadcasting along one axis: equal lengths pair up, a length of one is repeated, and
  anything else is numpy's ValueError (operands could not be broadcast together).
\<close>

definition broadcast :: "('a \<Rightarrow> 'b \<Rightarrow> error + 'c) \<Rightarrow> 'a list \<Rightarrow> 'b list \<Rightarrow> error + 'c list" where
  "broadcast f xs ys =
     (if length xs = length ys then collect (map2 f xs ys)
      else (case (xs, ys) of
              ([x], _) \<Rightarrow> collect (map (f x) ys)
            | (_, [y]) \<Rightarrow> collect (map (\<lambda>x. f x y) xs)
            | _ \<Rightarrow> Inl ValueError))"

definition broadcast3 ::
    "('a \<Rightarrow> 'b \<Rightarrow> 'c) \<Rightarrow> 'a list list list \<Rightarrow> 'b list list list \<Rightarrow> error + 'c list list list" where
  "broadcast3 f = broadcast (broadcast (broadcast (\<lambda>x y. Inr (f x y))))"

definition map3 :: "('a \<Rightarrow> 'b) \<Rightarrow> 'a list list list \<Rightarrow> 'b list list list" where
  "map3 f = map (map (map f))"

text \<open>\<^verbatim>\<open>a.astype(float)\<close>.\<close>

fun astype_float :: "ndarray \<Rightarrow> fval list list list" where
  "astype_float (UIntArray bits a) = map3 (\<lambda>n. Finite (of_nat n)) a"
| "astype_float (FloatArray a) = a"

text \<open>
  \<^verbatim>\<open>a + b\<close>: two unsigned integer arrays are added in the wider of their two
  dtypes, modulo two to its width; with a float operand the sum is a float array.
\<close>

fun np_add :: "ndarray \<Rightarrow> ndarray \<Rightarrow> error + ndarray" where
  "np_add (UIntArray m a) (UIntArray n b) =
     and_then (broadcast3 (\<lambda>x y. (x + y) mod 2 ^ max m n) a b) (\<lambda>s. Inr (UIntArray (max m n) s))"
| "np_add a b =
     and_then (broadcast3 fadd (astype_float a) (astype_float b)) (\<lambda>s. Inr (FloatArray s))"

text \<open>
  The band arithmetic of both index generators, with \<open>x\<close> the red or the red-edge band:
  \<^verbatim>\<open>(nir.astype(float)-x.astype(float))/(nir+x)\<close>. The two casts are on the
  operands of the difference; the sum is taken on the arrays as they were read.
\<close>

definition normalized_difference :: "ndarray \<Rightarrow> ndarray \<Rightarrow> error + fval list list list" where
  "normalized_difference nir x =
     and_then (broadcast3 fsub (astype_float nir) (astype_float x)) (\<lambda>num.
       and_then (np_add nir x) (\<lambda>den.
         broadcast3 fdiv num (astype_float den)))"

text \<open>The shape of an array, read off its first band and first row.\<close>

definition shape :: "'a list list list \<Rightarrow> nat \<times> nat \<times> nat" where
  "shape a =
     (length a,
      (case a of [] \<Rightarrow> 0 | band # _ \<Rightarrow> length band),
      (case a of (row # _) # _ \<Rightarrow> length row | _ \<Rightarrow> 0))"

fun array_shape :: "ndarray \<Rightarrow> nat \<times> nat \<times> nat" where
  "array_shape (UIntArray _ a) = shape a"
| "array_shape (FloatArray a) = shape a"

subsection \<open>Paths\<close>

text \<open>\<^verbatim>\<open>os.path.join\<close> of two components, \<^verbatim>\<open>os.path.dirname\<close> and
  \<^verbatim>\<open>os.path.basename\<close> on POSIX paths.\<close>

definition os_path_join :: "string \<Rightarrow> string \<Rightarrow> string" where
  "os_path_join a b =
     (if b \<noteq> [] \<and> hd b = CHR ''/'' then b
      else if a = [] \<or> last a = CHR ''/'' then a @ b
      else a @ ''/'' @ b)"

definition os_path_dirname :: "string \<Rightarrow> string" where
  "os_path_dirname p =
     (let head = rev (dropWhile (\<lambda>c. c \<noteq> CHR ''/'') (rev p))
      in if head \<noteq> [] \<and> \<not> list_all (\<lambda>c. c = CHR ''/'') head
         then rev (dropWhile (\<lambda>c. c = CHR ''/'') (rev head))
         else head)"

definition os_path_basename :: "string \<Rightarrow> string" where
  "os_path_basename p = rev (takeWhile (\<lambda>c. c \<noteq> CHR ''/'') (rev p))"

text \<open>\<^verbatim>\<open>sub in s\<close> on strings, and \<^verbatim>\<open>s.split(sep)\<close> for a separator of one
  character.\<close>

fun starts_with :: "string \<Rightarrow> string \<Rightarrow> bool" where
  "starts_with [] _ = True"
| "starts_with (p # ps) [] = False"
| "starts_with (p # ps) (c # cs) = (p = c \<and> starts_with ps cs)"

fun str_contains :: "string \<Rightarrow> string \<Rightarrow> bool" where
  "str_contains sub [] = (sub = [])"
| "str_contains sub (c # cs) = (starts_with sub (c # cs) \<or> str_contains sub cs)"

fun str_split :: "char \<Rightarrow> string \<Rightarrow> string list" where
  "str_split sep [] = [[]]"
| "str_split sep (c # cs) =
     (if c = sep then [] # str_split sep cs
      else (case str_split sep cs of
              [] \<Rightarrow> [[c]]
            | piece # pieces \<Rightarrow> (c # piece) # pieces))"

subsection \<open>The world outside the interpreter\<close>

text \<open>
  A raster file is its driver, its georeferencing and its pixels; count, height, width and
  dtype of rasterio's \<^verbatim>\<open>meta\<close> are those of the pixel array. A row of the ledger
  CSV holds the columns of a product as text.
\<close>

record raster =
  driver :: string
  crs :: string
  transform :: "rat list"
  pixels :: ndarray

record csv_row =
  c_uuid :: string
  c_title :: string
  c_filename :: string
  c_ingestiondate :: string
  c_geometry :: string

text \<open>
  The state that the operations read and change: the directories with the names
  \<^verbatim>\<open>os.listdir\<close> returns for each (the empty path is the working directory),
  the raster files, the CSV files and the zip archives by path (an archive is the list
  of the top-level names it unpacks to), the paths that cannot be opened for writing,
  and the products \<^verbatim>\<open>api.download\<close> has fetched so far, in order.
  Paths are compared as the strings the code builds.
\<close>

record world =
  listing :: "string \<rightharpoonup> string list"
  rasters :: "string \<rightharpoonup> raster"
  csvs :: "string \<rightharpoonup> csv_row list"
  zips :: "string \<rightharpoonup> string list"
  readonly :: "string list"
  downloads :: "string list"

text \<open>
  An operation with effects maps the world to its outcome and the world it leaves; an
  exception keeps the effects that came before it.
\<close>

type_synonym 'a io = "world \<Rightarrow> (error + 'a) \<times> world"

definition io_return :: "'a \<Rightarrow> 'a io" where
  "io_return x = (\<lambda>w. (Inr x, w))"

definition io_raise :: "error \<Rightarrow> 'a io" where
  "io_raise e = (\<lambda>w. (Inl e, w))"

definition io_lift :: "error + 'a \<Rightarrow> 'a io" where
  "io_lift r = (\<lambda>w. (r, w))"

definition io_bind :: "'a io \<Rightarrow> ('a \<Rightarrow> 'b io) \<Rightarrow> 'b io" where
  "io_bind m f = (\<lambda>w. case m w of (Inl e, w') \<Rightarrow> (Inl e, w') | (Inr x, w') \<Rightarrow> f x w')"

definition os_listdir :: "string \<Rightarrow> string list io" where
  "os_listdir path =
     (\<lambda>w. case listing w path of
             None \<Rightarrow> (Inl FileNotFoundError, w)
           | Some names \<Rightarrow> (Inr names, w))"

text \<open>
  A file can be created or overwritten at a path when its directory exists and the path is
  not write-protected. Creating it adds its name to the directory.
\<close>

definition can_write :: "world \<Rightarrow> string \<Rightarrow> bool" where
  "can_write w path = (path \<notin> set (readonly w) \<and> listing w (os_path_dirname path) \<noteq> None)"

definition add_entry :: "string \<Rightarrow> world \<Rightarrow> world" where
  "add_entry path w =
     (case listing w (os_path_dirname path) of
        None \<Rightarrow> w
      | Some names \<Rightarrow>
          w\<lparr>listing := (listing w)(os_path_dirname path \<mapsto>
               (if os_path_basename path \<in> set names then names
                else names @ [os_path_basename path]))\<rparr>)"

text \<open>\<^verbatim>\<open>rasterio.open(path)\<close> for reading, without and with a driver.\<close>

definition rio_open :: "string \<Rightarrow> raster io" where
  "rio_open path =
     (\<lambda>w. case rasters w path of
             None \<Rightarrow> (Inl RasterioIOError, w)
           | Some r \<Rightarrow> (Inr r, w))"

definition rio_open_driver :: "string \<Rightarrow> string \<Rightarrow> raster io" where
  "rio_open_driver path drv =
     io_bind (rio_open path) (\<lambda>r.
       if driver r = drv then io_return r else io_raise RasterioIOError)"

text \<open>
  \<^verbatim>\<open>with rasterio.open(path, 'w', **meta) as dst: dst.write(arr)\<close>. The caller
  gives the shape that \<open>meta\<close> announces; an array of another shape is refused with
  ValueError.
\<close>

definition rio_write :: "string \<Rightarrow> nat \<times> nat \<times> nat \<Rightarrow> raster \<Rightarrow> unit io" where
  "rio_write path meta_shape r =
     (\<lambda>w. if \<not> can_write w path then (Inl RasterioIOError, w)
          else if array_shape (pixels r) \<noteq> meta_shape then (Inl ValueError, w)
          else (Inr (), add_entry path (w\<lparr>rasters := (rasters w)(path \<mapsto> r)\<rparr>)))"

text \<open>\<^verbatim>\<open>pd.read_csv(path)\<close> and \<^verbatim>\<open>df.to_csv(path)\<close>. Only the product columns
  are kept; the index column that \<^verbatim>\<open>to_csv\<close> adds is not modelled.\<close>

definition read_csv :: "string \<Rightarrow> csv_row list io" where
  "read_csv path =
     (\<lambda>w. case csvs w path of
             None \<Rightarrow> (Inl FileNotFoundError, w)
           | Some df \<Rightarrow> (Inr df, w))"

definition to_csv :: "csv_row list \<Rightarrow> string \<Rightarrow> unit io" where
  "to_csv df path =
     (\<lambda>w. if can_write w path
          then (Inr (), add_entry path (w\<lparr>csvs := (csvs w)(path \<mapsto> df)\<rparr>))
          else (Inl OSError, w))"

text \<open>
  \<^verbatim>\<open>zipfile.ZipFile(filepath).extractall(path=dest)\<close>: the archive's top-level
  names appear in the directory \<open>dest\<close>, which is created when it does not exist.
\<close>

definition add_names :: "string list \<Rightarrow> string list \<Rightarrow> string list" where
  "add_names names new = names @ filter (\<lambda>n. n \<notin> set names) (remdups new)"

definition zip_extractall :: "string \<Rightarrow> string \<Rightarrow> unit io" where
  "zip_extractall filepath dest =
     (\<lambda>w. case zips w filepath of
             None \<Rightarrow> (Inl FileNotFoundError, w)
           | Some members \<Rightarrow>
               (case listing w dest of
                  None \<Rightarrow> (Inr (), add_entry dest (w\<lparr>listing := (listing w)(dest \<mapsto> remdups members)\<rparr>))
                | Some names \<Rightarrow>
                    (Inr (), w\<lparr>listing := (listing w)(dest \<mapsto> add_names names members)\<rparr>)))"

section \<open>The libraries\<close>

text \<open>
  A product of the archive, as a row of the geodataframe that
  \<^verbatim>\<open>api.to_geodataframe\<close> returns: its index label (the product's uuid) and the
  columns the code reads. \<open>footprint\<close> is the row's \<^verbatim>\<open>geometry\<close> column. A
  datetime is a rational number of days since an epoch, so that
  \<^verbatim>\<open>timedelta(days=1)\<close> is \<open>1\<close>.
\<close>

record 'p product =
  uuid :: string
  title :: string
  filename :: string
  ingestiondate :: rat
  footprint :: "'p geometry"

text \<open>
  What the wrapped libraries compute. None of it is code of the repository, so an
  operation takes these functions as a parameter: shapely's intersection, area and WKT
  reader and writer; the archive's query (with \<^verbatim>\<open>to_geodataframe\<close> applied) and,
  for a download, the name of the zip file it saves and the top-level names inside it;
  the parsing and printing of dates (\<^verbatim>\<open>pd.to_datetime\<close>,
  \<^verbatim>\<open>strptime(s, '%d/%m/%Y')\<close>, \<^verbatim>\<open>strftime('%d-%m-%Y')\<close>, the text
  \<^verbatim>\<open>to_csv\<close> prints); rasterio's resampled read and clipping, and geopandas'
  reprojection.
\<close>

record 'p library =
  shapely_intersection :: "'p geometry \<Rightarrow> 'p geometry \<Rightarrow> 'p geometry"
  shapely_area :: "'p geometry \<Rightarrow> rat"
  wkt_loads :: "string \<Rightarrow> error + 'p geometry"
  wkt_dumps :: "'p geometry \<Rightarrow> string"
  api_query :: "'p geometry \<Rightarrow> string \<Rightarrow> string \<Rightarrow> nat \<times> nat \<Rightarrow> error + 'p product list"
  api_download :: "string \<Rightarrow> error + string \<times> string list"
  pd_to_datetime :: "string \<Rightarrow> error + rat"
  strptime_dmy :: "string \<Rightarrow> error + rat"
  strftime_dmy :: "rat \<Rightarrow> string"
  timestamp_str :: "rat \<Rightarrow> string"
  rio_resample :: "raster \<Rightarrow> nat \<times> nat \<times> nat \<Rightarrow> error + ndarray"
  gdf_to_crs :: "'p gdf_row list \<Rightarrow> string \<Rightarrow> error + 'p gdf_row list"
  rio_mask :: "raster \<Rightarrow> 'p geometry list \<Rightarrow> error + ndarray \<times> rat list"

section \<open>senti\_download.py: DownloadImages\<close>

text \<open>
  Python binds arguments to parameters by position and checks no type. The values that
  the calls of this module pass to \<^verbatim>\<open>download_folders\<close> are booleans, floats,
  strings and product frames; each use of a parameter below says what Python does with
  each of them.
\<close>

datatype 'p pyval = PyBool bool | PyFloat rat | PyStr string | PyFrame "'p product list"

text \<open>\<^verbatim>\<open>products.iterrows()\<close>: only a frame has the method.\<close>

fun iterrows :: "'p pyval \<Rightarrow> error + 'p product list" where
  "iterrows (PyFrame rows) = Inr rows"
| "iterrows _ = Inl AttributeError"

text \<open>\<^verbatim>\<open>if regional_poly:\<close> the truth value of a frame is ambiguous (ValueError).\<close>

fun py_truth :: "'p pyval \<Rightarrow> error + bool" where
  "py_truth (PyBool b) = Inr b"
| "py_truth (PyFloat x) = Inr (x \<noteq> 0)"
| "py_truth (PyStr s) = Inr (s \<noteq> [])"
| "py_truth (PyFrame _) = Inl ValueError"

text \<open>
  \<^verbatim>\<open>os.listdir(database_path)\<close>: a string is a path; a bool is an integer, which
  \<^verbatim>\<open>os.listdir\<close> takes for the file descriptor 0 or 1 (a standard stream, not a
  directory); a float or a frame is a TypeError.
\<close>

fun listdir_py :: "'p pyval \<Rightarrow> string list io" where
  "listdir_py (PyStr path) = os_listdir path"
| "listdir_py (PyBool _) = io_raise OSError"
| "listdir_py _ = io_raise TypeError"

text \<open>A path argument of \<^verbatim>\<open>os.path.join\<close>.\<close>

fun fspath :: "'p pyval \<Rightarrow> error + string" where
  "fspath (PyStr path) = Inr path"
| "fspath _ = Inl TypeError"

definition get_products ::
    "'p library \<Rightarrow> 'p geometry \<Rightarrow> string \<Rightarrow> string \<Rightarrow> nat \<times> nat \<Rightarrow> 'p product list io" where
  "get_products lib polygon initial_date final_date cloudcover =
     io_lift (api_query lib polygon initial_date final_date cloudcover)"

text \<open>
  \<^verbatim>\<open>self.api.download(idx, directory_path=database_path)\<close>: the archive's zip
  file is saved in the directory and the product is logged as fetched.
\<close>

definition download :: "'p library \<Rightarrow> string \<Rightarrow> string \<Rightarrow> unit io" where
  "download lib idx directory_path =
     (\<lambda>w. case api_download lib idx of
             Inl e \<Rightarrow> (Inl e, w)
           | Inr (zipname, members) \<Rightarrow>
               (if can_write w (os_path_join directory_path zipname)
                then (Inr (), add_entry (os_path_join directory_path zipname)
                        (w\<lparr>zips := (zips w)(os_path_join directory_path zipname \<mapsto> members),
                           downloads := downloads w @ [idx]\<rparr>))
                else (Inl OSError, w)))"

text \<open>
  The body of the loop of \<^verbatim>\<open>download_folders\<close> for one row; \<open>delete\<close> is the
  list of index labels to drop, which the body returns extended.
\<close>

definition download_folders_row ::
    "'p library \<Rightarrow> 'p geometry \<Rightarrow> 'p pyval \<Rightarrow> 'p pyval \<Rightarrow> rat \<Rightarrow> 'p product \<Rightarrow> string list
       \<Rightarrow> string list io" where
  "download_folders_row lib polygon regional_poly database_path threshold row delete =
     (let intersect_area = shapely_area lib (shapely_intersection lib polygon (footprint row))
      in io_bind (io_lift (py_truth regional_poly)) (\<lambda>regional.
           io_bind (io_lift (if regional
                             then py_div intersect_area (shapely_area lib (footprint row))
                             else py_div intersect_area (shapely_area lib polygon))) (\<lambda>area.
             if area \<ge> threshold
             then io_bind (listdir_py database_path) (\<lambda>names.
                    if filename row \<notin> set names
                    then io_bind (io_lift (fspath database_path)) (\<lambda>directory_path.
                           io_bind (download lib (uuid row) directory_path) (\<lambda>_.
                             io_bind (zip_extractall
                                        (os_path_join directory_path (title row @ ''.zip''))
                                        directory_path) (\<lambda>_.
                               io_return delete)))
                    else io_return (delete @ [uuid row]))
             else io_return (delete @ [uuid row]))))"

fun download_folders_loop ::
    "'p library \<Rightarrow> 'p geometry \<Rightarrow> 'p pyval \<Rightarrow> 'p pyval \<Rightarrow> rat \<Rightarrow> 'p product list \<Rightarrow> string list
       \<Rightarrow> string list io" where
  "download_folders_loop lib polygon regional_poly database_path threshold [] delete =
     io_return delete"
| "download_folders_loop lib polygon regional_poly database_path threshold (row # rows) delete =
     io_bind (download_folders_row lib polygon regional_poly database_path threshold row delete)
       (download_folders_loop lib polygon regional_poly database_path threshold rows)"

text \<open>\<^verbatim>\<open>products.drop(delete)\<close>: the rows whose index label is not in the list.\<close>

definition drop_rows :: "string list \<Rightarrow> 'p product list \<Rightarrow> 'p product list" where
  "drop_rows delete rows = filter (\<lambda>row. uuid row \<notin> set delete) rows"

text \<open>
  \<^verbatim>\<open>download_folders(self, polygon, regional_poly, products, database_path,
  threshold=0.9)\<close>. The polygon and the threshold are a geometry and a float at every
  call of the repository; the three parameters in between are taken as they come.
\<close>

definition download_folders ::
    "'p library \<Rightarrow> 'p geometry \<Rightarrow> 'p pyval \<Rightarrow> 'p pyval \<Rightarrow> 'p pyval \<Rightarrow> rat
       \<Rightarrow> 'p product list io" where
  "download_folders lib polygon regional_poly products database_path threshold =
     io_bind (io_lift (iterrows products)) (\<lambda>rows.
       io_bind (download_folders_loop lib polygon regional_poly database_path threshold rows [])
         (\<lambda>delete. io_return (drop_rows delete rows)))"

text \<open>The ledger row that \<^verbatim>\<open>to_csv\<close> prints for a product.\<close>

definition csv_row_of :: "'p library \<Rightarrow> 'p product \<Rightarrow> csv_row" where
  "csv_row_of lib p =
     \<lparr>c_uuid = uuid p, c_title = title p, c_filename = filename p,
      c_ingestiondate = timestamp_str lib (ingestiondate p),
      c_geometry = wkt_dumps lib (footprint p)\<rparr>"

text \<open>
  \<^verbatim>\<open>DataFrame.append\<close> (pandas before 2.0, which the repository is written for)
  returns a new frame and leaves both operands as they are.
\<close>

definition df_append :: "csv_row list \<Rightarrow> csv_row list \<Rightarrow> csv_row list" where
  "df_append df other = df @ other"

text \<open>
  \<^verbatim>\<open>update_downloaded\<close>: the \<^verbatim>\<open>try\<close> block reads the ledger, calls
  \<^verbatim>\<open>df.append(downloaded_products)\<close> without keeping its result and writes
  \<open>df\<close> back; the bare \<^verbatim>\<open>except\<close> writes the downloaded products instead.
\<close>

definition update_downloaded :: "'p library \<Rightarrow> string \<Rightarrow> 'p product list \<Rightarrow> unit io" where
  "update_downloaded lib csv_path downloaded_products =
     (\<lambda>w. case io_bind (read_csv csv_path) (\<lambda>df.
                  let appended = df_append df (map (csv_row_of lib) downloaded_products)
                  in to_csv df csv_path) w of
             (Inr u, w') \<Rightarrow> (Inr u, w')
           | (Inl _, w') \<Rightarrow> to_csv (map (csv_row_of lib) downloaded_products) csv_path w')"

text \<open>
  \<^verbatim>\<open>full_pipe\<close> calls
  \<^verbatim>\<open>self.download_folders(polygon, products, database_path, threshold)\<close>: four
  positional arguments for five parameters. They bind to \<open>polygon\<close>,
  \<open>regional_poly\<close>, \<open>products\<close> and \<open>database_path\<close>; \<open>threshold\<close> keeps its default
  \<open>0.9\<close>.
\<close>

definition full_pipe ::
    "'p library \<Rightarrow> string \<Rightarrow> 'p geometry \<Rightarrow> string \<Rightarrow> string \<Rightarrow> string \<Rightarrow> rat \<Rightarrow> nat \<times> nat
       \<Rightarrow> unit io" where
  "full_pipe lib csv_path polygon intial_date final_date database_path threshold cloudcover =
     io_bind (get_products lib polygon intial_date final_date cloudcover) (\<lambda>products.
       io_bind (download_folders lib polygon (PyFrame products) (PyStr database_path)
                  (PyFloat threshold) (9 / 10)) (\<lambda>products.
         update_downloaded lib csv_path products))"

section \<open>img\_processing.py: ImageProcessing\<close>

text \<open>The instance: the geodataframe of the polygons of interest and the database path.\<close>

record 'p image_processing =
  self_gdf :: "'p gdf_row list"
  self_database :: string

text \<open>
  Reading a local variable that no statement has assigned yet raises UnboundLocalError;
  \<open>None\<close> stands for the unassigned variable.
\<close>

definition read_local :: "'a option \<Rightarrow> error + 'a" where
  "read_local v = (case v of None \<Rightarrow> Inl UnboundLocalError | Some x \<Rightarrow> Inr x)"

text \<open>\<^verbatim>\<open>d[key] += [v]\<close> and \<^verbatim>\<open>d[key]\<close> on a dictionary.\<close>

definition dict_append :: "(string \<rightharpoonup> 'a list) \<Rightarrow> string \<Rightarrow> 'a \<Rightarrow> error + (string \<rightharpoonup> 'a list)" where
  "dict_append d key v =
     (case d key of None \<Rightarrow> Inl KeyError | Some xs \<Rightarrow> Inr (d(key \<mapsto> xs @ [v])))"

definition dict_get :: "(string \<rightharpoonup> 'a) \<Rightarrow> string \<Rightarrow> error + 'a" where
  "dict_get d key = (case d key of None \<Rightarrow> Inl KeyError | Some v \<Rightarrow> Inr v)"

subsection \<open>get\_folders\<close>

text \<open>\<^verbatim>\<open>df.ingestiondate = pd.to_datetime(df.ingestiondate)\<close>: each ledger row with
  its parsed ingestion date.\<close>

definition parse_dates :: "'p library \<Rightarrow> csv_row list \<Rightarrow> error + (csv_row \<times> rat) list" where
  "parse_dates lib df =
     collect (map (\<lambda>row. and_then (pd_to_datetime lib (c_ingestiondate row)) (\<lambda>t. Inr (row, t))) df)"

text \<open>
  The two date filters. The first assigns to \<^verbatim>\<open>intial_date\<close>, a name that
  differs from the parameter \<^verbatim>\<open>initial_date\<close> and is therefore a local variable
  of its own; the right-hand side of the assignment reads it before anything has been
  assigned to it. The comparison that follows is with the parameter, a string, which
  pandas parses for the comparison.
\<close>

definition filter_initial ::
    "'p library \<Rightarrow> string option \<Rightarrow> (csv_row \<times> rat) list \<Rightarrow> error + (csv_row \<times> rat) list" where
  "filter_initial lib initial_date df =
     (case initial_date of
        None \<Rightarrow> Inr df
      | Some s \<Rightarrow>
          and_then (read_local (None :: string option)) (\<lambda>unassigned.
            and_then (strptime_dmy lib unassigned) (\<lambda>intial_date.
              and_then (pd_to_datetime lib s) (\<lambda>t.
                Inr (filter (\<lambda>(row, stamp). stamp > t) df)))))"

definition filter_final ::
    "'p library \<Rightarrow> string option \<Rightarrow> (csv_row \<times> rat) list \<Rightarrow> error + (csv_row \<times> rat) list" where
  "filter_final lib final_date df =
     (case final_date of
        None \<Rightarrow> Inr df
      | Some s \<Rightarrow>
          and_then (strptime_dmy lib s) (\<lambda>parsed.
            let final_date = parsed + 1
            in Inr (filter (\<lambda>(row, stamp). stamp < final_date) df)))"

text \<open>The inner loop over the ledger rows, for one polygon row of the geodataframe.\<close>

fun get_folders_scan ::
    "'p library \<Rightarrow> 'p gdf_row \<Rightarrow> rat \<Rightarrow> (csv_row \<times> rat) list
       \<Rightarrow> (string \<rightharpoonup> string list) \<times> (string \<rightharpoonup> rat list)
       \<Rightarrow> error + (string \<rightharpoonup> string list) \<times> (string \<rightharpoonup> rat list)" where
  "get_folders_scan lib gdf_row threshold [] (folders, date) = Inr (folders, date)"
| "get_folders_scan lib gdf_row threshold ((row, stamp) # rows) (folders, date) =
     and_then (wkt_loads lib (c_geometry row)) (\<lambda>senti_poly.
       let intersect_area =
             shapely_area lib (shapely_intersection lib (geometry gdf_row) senti_poly)
       in and_then (py_div intersect_area (shapely_area lib (geometry gdf_row))) (\<lambda>area.
            if area \<ge> threshold
            then and_then (dict_append folders (name gdf_row) (c_filename row)) (\<lambda>folders'.
                   and_then (dict_append date (name gdf_row) stamp) (\<lambda>date'.
                     get_folders_scan lib gdf_row threshold rows (folders', date')))
            else get_folders_scan lib gdf_row threshold rows (folders, date)))"

text \<open>The outer loop over the polygon rows.\<close>

fun get_folders_loop ::
    "'p library \<Rightarrow> rat \<Rightarrow> (csv_row \<times> rat) list \<Rightarrow> 'p gdf_row list
       \<Rightarrow> (string \<rightharpoonup> string list) \<times> (string \<rightharpoonup> rat list)
       \<Rightarrow> error + (string \<rightharpoonup> string list) \<times> (string \<rightharpoonup> rat list)" where
  "get_folders_loop lib threshold df [] (folders, date) = Inr (folders, date)"
| "get_folders_loop lib threshold df (gdf_row # gdf_rows) (folders, date) =
     and_then (get_folders_scan lib gdf_row threshold df
                 (folders(name gdf_row \<mapsto> []), date(name gdf_row \<mapsto> [])))
       (get_folders_loop lib threshold df gdf_rows)"

definition get_folders ::
    "'p library \<Rightarrow> 'p image_processing \<Rightarrow> string \<Rightarrow> string option \<Rightarrow> string option \<Rightarrow> rat
       \<Rightarrow> ((string \<rightharpoonup> string list) \<times> (string \<rightharpoonup> rat list)) io" where
  "get_folders lib self csv_path initial_date final_date threshold =
     io_bind (read_csv csv_path) (\<lambda>df.
       io_lift
         (and_then (parse_dates lib df) (\<lambda>df.
            and_then (filter_initial lib initial_date df) (\<lambda>df.
              and_then (filter_final lib final_date df) (\<lambda>df.
                get_folders_loop lib threshold df (self_gdf self) (Map.empty, Map.empty))))))"

subsection \<open>get\_img\_path\<close>

definition get_img_path :: "'p image_processing \<Rightarrow> string \<Rightarrow> string io" where
  "get_img_path self folder =
     (let path = os_path_join (os_path_join (self_database self) folder) ''GRANULE''
      in io_bind (os_listdir path) (\<lambda>f.
           case f of
             [] \<Rightarrow> io_raise IndexError
           | f0 # _ \<Rightarrow> io_return (os_path_join (os_path_join path f0) ''IMG_DATA'')))"

subsection \<open>generate\_ndvi and generate\_ndre\<close>

text \<open>
  The loop that fills \<^verbatim>\<open>bands\<close>: every listed name that contains
  \<^verbatim>\<open>.jp2\<close> is stored under the third piece of \<^verbatim>\<open>f.split('_')\<close>
  (IndexError when there are fewer than three pieces).
\<close>

fun band_dict :: "string list \<Rightarrow> (string \<rightharpoonup> string) \<Rightarrow> error + (string \<rightharpoonup> string)" where
  "band_dict [] bands = Inr bands"
| "band_dict (f # fs) bands =
     (if str_contains ''.jp2'' f
      then (case drop 2 (str_split (CHR ''_'') f) of
              [] \<Rightarrow> Inl IndexError
            | key # _ \<Rightarrow> band_dict fs (bands(key \<mapsto> f)))
      else band_dict fs bands)"

definition generate_ndvi :: "string \<Rightarrow> unit io" where
  "generate_ndvi img_path =
     (let path = os_path_join img_path ''R10m''
      in io_bind (os_listdir path) (\<lambda>present.
           if ''NDVI.tiff'' \<notin> set present
           then io_bind (os_listdir path) (\<lambda>names.
                  io_bind (io_lift (band_dict names Map.empty)) (\<lambda>bands.
                    io_bind (io_lift (dict_get bands ''B04'')) (\<lambda>f4.
                      io_bind (rio_open_driver (os_path_join path f4) ''JP2OpenJPEG'') (\<lambda>b4.
                        io_bind (io_lift (dict_get bands ''B08'')) (\<lambda>f8.
                          io_bind (rio_open_driver (os_path_join path f8) ''JP2OpenJPEG'') (\<lambda>b8.
                            let red = pixels b4; nir = pixels b8
                            in io_bind (io_lift (normalized_difference nir red)) (\<lambda>ndvi.
                                 rio_write (os_path_join path ''NDVI.tiff'') (array_shape (pixels b4))
                                   \<lparr>driver = ''GTiff'', crs = crs b4, transform = transform b4,
                                    pixels = FloatArray ndvi\<rparr>)))))))
           else io_return ()))"

text \<open>
  \<^verbatim>\<open>generate_ndre\<close> reads B05 from \<^verbatim>\<open>R20m\<close>, reads B08 from
  \<^verbatim>\<open>R10m\<close> resampled to half its height and width, writes that array as
  \<^verbatim>\<open>B8_reproj.tiff\<close>, reads it back and computes the index. The scaled transform
  is stored under the key \<^verbatim>\<open>'transfrom'\<close>, which rasterio does not read, so the
  reprojected file keeps the transform of its source; computing it divides by the last two
  dimensions of the resampled array. \<open>write_b8_reproj\<close> is the block
  \<^verbatim>\<open>with rasterio.open(filepath) as src\<close>.
\<close>

definition write_b8_reproj :: "'p library \<Rightarrow> string \<Rightarrow> raster \<Rightarrow> unit io" where
  "write_b8_reproj lib path src =
     (case array_shape (pixels src) of
        (count, height, width) \<Rightarrow>
          let out_height = height div 2; out_width = width div 2
          in io_bind (io_lift (rio_resample lib src (count, out_height, out_width))) (\<lambda>data.
               if fst (snd (array_shape data)) = 0 \<or> snd (snd (array_shape data)) = 0
               then io_raise ZeroDivisionError
               else rio_write (os_path_join path ''B8_reproj.tiff'') (count, out_height, out_width)
                      \<lparr>driver = ''GTiff'', crs = crs src, transform = transform src,
                       pixels = data\<rparr>))"

definition generate_ndre :: "'p library \<Rightarrow> string \<Rightarrow> unit io" where
  "generate_ndre lib img_path =
     (let path10 = os_path_join img_path ''R10m''; path20 = os_path_join img_path ''R20m''
      in io_bind (os_listdir path10) (\<lambda>present.
           if ''NDRE.tiff'' \<notin> set present
           then io_bind (os_listdir path20) (\<lambda>names20.
                  io_bind (io_lift (band_dict names20 Map.empty)) (\<lambda>bands20.
                    io_bind (io_lift (dict_get bands20 ''B05'')) (\<lambda>f5.
                      io_bind (rio_open_driver (os_path_join path20 f5) ''JP2OpenJPEG'') (\<lambda>b5.
                        io_bind (os_listdir path10) (\<lambda>names10.
                          io_bind (io_lift (band_dict names10 Map.empty)) (\<lambda>bands10.
                            io_bind (io_lift (dict_get bands10 ''B08'')) (\<lambda>f8.
                              io_bind (rio_open (os_path_join path10 f8)) (\<lambda>src.
                                io_bind (write_b8_reproj lib path10 src) (\<lambda>_.
                                  io_bind (rio_open (os_path_join path10 ''B8_reproj.tiff'')) (\<lambda>b8.
                                    let rededge = pixels b5; nir = pixels b8
                                    in io_bind (io_lift (normalized_difference nir rededge)) (\<lambda>ndre.
                                         rio_write (os_path_join path10 ''NDRE.tiff'')
                                           (array_shape (pixels b5))
                                           \<lparr>driver = ''GTiff'', crs = crs b5,
                                            transform = transform b5,
                                            pixels = FloatArray ndre\<rparr>)))))))))))
           else io_return ()))"

subsection \<open>mask\_ndre, mask\_ndvi and mask\_tci\<close>






section \<open>A library of boxes, to run the operations on concrete inputs\<close>

text \<open>
  An instance of the library record on which every operation can be evaluated: a polygon
  is an axis-parallel box \<^verbatim>\<open>box(minx, miny, maxx, maxy)\<close>, whose intersections and
  areas are computed exactly; the archive offers one product; dates and WKT texts are
  read from small tables; a resampled read keeps every other pixel; reprojection and
  clipping return their input.
\<close>

type_synonym box = "rat \<times> rat \<times> rat \<times> rat"

fun box_area :: "box \<Rightarrow> rat" where
  "box_area (minx, miny, maxx, maxy) =
     (if minx \<le> maxx \<and> miny \<le> maxy then (maxx - minx) * (maxy - miny) else 0)"

fun box_intersection :: "box \<Rightarrow> box \<Rightarrow> box" where
  "box_intersection (ax, ay, bx, by) (cx, cy, dx, dy) = (max ax cx, max ay cy, min bx dx, min by dy)"

fun boxes_intersection :: "box geometry \<Rightarrow> box geometry \<Rightarrow> box geometry" where
  "boxes_intersection (Polygon a) (Polygon b) = Polygon (box_intersection a b)"
| "boxes_intersection _ _ = MultiPolygon []"

fun boxes_area :: "box geometry \<Rightarrow> rat" where
  "boxes_area (Polygon a) = box_area a"
| "boxes_area (MultiPolygon bs) = sum_list (map box_area bs)"
| "boxes_area _ = 0"

fun every_other :: "'a list \<Rightarrow> 'a list" where
  "every_other (x # y # xs) = x # every_other xs"
| "every_other xs = xs"

definition halve :: "nat \<Rightarrow> nat \<Rightarrow> 'a list list list \<Rightarrow> 'a list list list" where
  "halve height width a =
     map (\<lambda>band. take height (every_other (map (\<lambda>row. take width (every_other row)) band))) a"

fun decimate :: "raster \<Rightarrow> nat \<times> nat \<times> nat \<Rightarrow> error + ndarray" where
  "decimate r (count, height, width) =
     (case pixels r of
        UIntArray bits a \<Rightarrow> Inr (UIntArray bits (halve height width a))
      | FloatArray a \<Rightarrow> Inr (FloatArray (halve height width a)))"

definition tile_a :: "box product" where
  "tile_a = \<lparr>uuid = ''uuid-a'', title = ''S2A_a'', filename = ''S2A_a.SAFE'',
     ingestiondate = 18293 + 7 / 16, footprint = Polygon (0, 0, 10, 10)\<rparr>"

definition box_library :: "box library" where
  "box_library =
     \<lparr>shapely_intersection = boxes_intersection,
      shapely_area = boxes_area,
      wkt_loads = (\<lambda>s. if s = ''POLYGON ((0 0, 10 0, 10 10, 0 10, 0 0))''
                        then Inr (Polygon (0, 0, 10, 10)) else Inl ValueError),
      wkt_dumps = (\<lambda>g. if g = Polygon (0, 0, 10, 10)
                        then ''POLYGON ((0 0, 10 0, 10 10, 0 10, 0 0))'' else geom_type g),
      api_query = (\<lambda>polygon initial_date final_date cloudcover. Inr [tile_a]),
      api_download = (\<lambda>idx. if idx = ''uuid-a'' then Inr (''S2A_a.zip'', [''S2A_a.SAFE''])
                              else Inl ApiError),
      pd_to_datetime = (\<lambda>s. if s = ''2020-02-01 10:30:00'' then Inr (18293 + 7 / 16)
                               else if s = ''2020-02-03 10:30:00'' then Inr (18295 + 7 / 16)
                               else Inl ValueError),
      strptime_dmy = (\<lambda>s. if s = ''01/02/2020'' then Inr 18293
                             else if s = ''02/02/2020'' then Inr 18294
                             else Inl ValueError),
      strftime_dmy = (\<lambda>d. if d < 18294 then ''01-02-2020'' else ''03-02-2020''),
      timestamp_str = (\<lambda>d. if d < 18294 then ''2020-02-01 10:30:00'' else ''2020-02-03 10:30:00''),
      rio_resample = decimate,
      gdf_to_crs = (\<lambda>gdf crs. Inr gdf),
      rio_mask = (\<lambda>src shapes. if shapes = [] then Inl ValueError
                                  else Inr (pixels src, transform src))\<rparr>"

text \<open>
  An image directory whose two 10 m bands are rasters of one bright pixel, with red
  \<open>30000\<close> and near infrared \<open>40000\<close> as \<^verbatim>\<open>uint16\<close>.
\<close>

definition red_band :: raster where
  "red_band = \<lparr>driver = ''JP2OpenJPEG'', crs = ''EPSG:32632'', transform = [10, 0, 0, 0, - 10, 0],
     pixels = UIntArray 16 [[[30000]]]\<rparr>"

definition nir_band :: raster where
  "nir_band = \<lparr>driver = ''JP2OpenJPEG'', crs = ''EPSG:32632'', transform = [10, 0, 0, 0, - 10, 0],
     pixels = UIntArray 16 [[[40000]]]\<rparr>"

definition bright_world :: world where
  "bright_world =
     \<lparr>listing = [''img/R10m'' \<mapsto> [''T32_2020_B04_10m.jp2'', ''T32_2020_B08_10m.jp2'']],
      rasters = [''img/R10m/T32_2020_B04_10m.jp2'' \<mapsto> red_band,
                 ''img/R10m/T32_2020_B08_10m.jp2'' \<mapsto> nir_band],
      csvs = Map.empty, zips = Map.empty, readonly = [], downloads = []\<rparr>"

text \<open>
  A working directory with a database directory \<^verbatim>\<open>db\<close> and a ledger
  \<^verbatim>\<open>ledger.csv\<close> of one product, \<open>tile_b\<close>, recorded earlier.
\<close>

definition row_b :: csv_row where
  "row_b = \<lparr>c_uuid = ''uuid-b'', c_title = ''S2A_b'', c_filename = ''S2A_b.SAFE'',
     c_ingestiondate = ''2020-02-03 10:30:00'',
     c_geometry = ''POLYGON ((0 0, 10 0, 10 10, 0 10, 0 0))''\<rparr>"

definition ledger_world :: world where
  "ledger_world =
     \<lparr>listing = ['''' \<mapsto> [''db'', ''ledger.csv''], ''db'' \<mapsto> [''S2A_b.SAFE'']],
      rasters = Map.empty,
      csvs = [''ledger.csv'' \<mapsto> [row_b]],
      zips = Map.empty, readonly = [], downloads = []\<rparr>"

text \<open>A product whose unpacked folder is already in the database directory of
  \<open>ledger_world\<close>.\<close>

definition tile_b :: "box product" where
  "tile_b = \<lparr>uuid = ''uuid-b'', title = ''S2A_b'', filename = ''S2A_b.SAFE'',
     ingestiondate = 18295 + 7 / 16, footprint = Polygon (0, 0, 10, 10)\<rparr>"

text \<open>
  An image directory in which both index files have been generated, the output
  directories of the polygon \<^verbatim>\<open>north\<close>, and two instances: one over two
  polygons, one over a degenerate polygon of area zero.
\<close>

definition index_raster :: raster where
  "index_raster = \<lparr>driver = ''GTiff'', crs = ''EPSG:32632'', transform = [10, 0, 0, 0, - 10, 0],
     pixels = FloatArray [[[Finite (1 / 7)]]]\<rparr>"

definition tci_raster :: raster where
  "tci_raster = \<lparr>driver = ''JP2OpenJPEG'', crs = ''EPSG:32632'', transform = [10, 0, 0, 0, - 10, 0],
     pixels = UIntArray 8 [[[120]], [[130]], [[90]]]\<rparr>"

definition index_world :: world where
  "index_world =
     \<lparr>listing = [''img/R10m'' \<mapsto> [''T32_2020_TCI_10m.jp2'', ''NDVI.tiff'', ''NDRE.tiff''],
                 ''north/NDVI'' \<mapsto> [], ''north/NDRE'' \<mapsto> [], ''north/TCI'' \<mapsto> []],
      rasters = [''img/R10m/T32_2020_TCI_10m.jp2'' \<mapsto> tci_raster,
                 ''img/R10m/NDVI.tiff'' \<mapsto> index_raster,
                 ''img/R10m/NDRE.tiff'' \<mapsto> index_raster],
      csvs = Map.empty, zips = Map.empty, readonly = [], downloads = []\<rparr>"

definition north :: "box gdf_row" where
  "north = \<lparr>name = ''north'', geometry = Polygon (1, 1, 2, 2)\<rparr>"

definition south :: "box gdf_row" where
  "south = \<lparr>name = ''south'', geometry = Polygon (3, 3, 4, 4)\<rparr>"

definition two_fields :: "box image_processing" where
  "two_fields = \<lparr>self_gdf = [north, south], self_database = ''db''\<rparr>"


section \<open>Properties\<close>

subsection \<open>Running the sequencing operators\<close>

lemma and_then_Inr [simp]: "and_then (Inr x) f = f x"
  by (simp add: and_then_def)

lemma and_then_Inl [simp]: "and_then (Inl e) f = Inl e"
  by (simp add: and_then_def)

lemma io_bind_apply:
  "io_bind m f w = (case m w of (Inl e, w') \<Rightarrow> (Inl e, w') | (Inr x, w') \<Rightarrow> f x w')"
  by (simp add: io_bind_def)

lemma io_return_apply [simp]: "io_return x w = (Inr x, w)"
  by (simp add: io_return_def)

lemma io_raise_apply [simp]: "io_raise e w = (Inl e, w)"
  by (simp add: io_raise_def)

lemma io_lift_apply [simp]: "io_lift r w = (r, w)"
  by (simp add: io_lift_def)

text \<open>Creating a directory entry touches the listings only, and only adds a name.\<close>

lemma rasters_add_entry [simp]: "rasters (add_entry path w) = rasters w"
  by (simp add: add_entry_def split: option.splits)

lemma downloads_add_entry [simp]: "downloads (add_entry path w) = downloads w"
  by (simp add: add_entry_def split: option.splits)

lemma listing_add_entry_grows:
  "listing w d = Some names \<Longrightarrow>
   \<exists>names'. listing (add_entry path w) d = Some names' \<and> set names \<subseteq> set names'"
  by (auto simp add: add_entry_def split: option.splits)

subsection \<open>preprocess\_multipoly\<close>

text \<open>
  C4. A geodataframe with exactly one row, a MultiPolygon of two polygons: the result is
  one row holding the first polygon. The second polygon is in no row of the result.
\<close>

theorem preprocess_multipoly_single_row_keeps_first:
  "preprocess_multipoly [\<lparr>name = ''field'', geometry = MultiPolygon [1::nat, 2]\<rparr>]
     = Inr [\<lparr>name = ''field'', geometry = Polygon 1\<rparr>]"
  by (simp add: preprocess_multipoly_def row_by_type_def check_type_def transform_multipoly_def
      pd_concat_def)

subsection \<open>generate\_ndvi and generate\_ndre\<close>

text \<open>
  Two band arrays of one shape are the two projections of an array of pixel pairs. Where
  no pair of pixels sums to \<open>2 ^ bits\<close> or more, the computed array is the normalized
  difference of each pair (NaN where both pixels are zero).
\<close>

lemma collect_map_Inr:
  "(\<And>x. x \<in> set xs \<Longrightarrow> f x = Inr (g x)) \<Longrightarrow> collect (map f xs) = Inr (map g xs)"
  by (induction xs) simp_all

lemma broadcast_paired:
  assumes "\<And>p. p \<in> set ps \<Longrightarrow> f (a p) (b p) = Inr (g p)"
  shows "broadcast f (map a ps) (map b ps) = Inr (map g ps)"
proof -
  have "map2 f (map a ps) (map b ps) = map (\<lambda>p. f (a p) (b p)) ps"
    by (induction ps) simp_all
  with assms show ?thesis
    by (simp add: broadcast_def collect_map_Inr)
qed

lemma broadcast3_paired:
  "broadcast3 h (map3 a c) (map3 b c) = Inr (map3 (\<lambda>p. h (a p) (b p)) c)"
  unfolding broadcast3_def map3_def
  by (intro broadcast_paired) simp

lemma map3_map3: "map3 f (map3 g c) = map3 (\<lambda>p. f (g p)) c"
  by (simp add: map3_def comp_def)

lemma map3_cong_all:
  "list_all (list_all (list_all (\<lambda>p. f p = g p))) c \<Longrightarrow> map3 f c = map3 g c"
  by (simp add: map3_def list_all_iff)

lemma normalized_difference_without_wrap:
  assumes "list_all (list_all (list_all (\<lambda>p. fst p + snd p < 2 ^ bits))) c"
  shows "normalized_difference (UIntArray bits (map3 fst c)) (UIntArray bits (map3 snd c))
           = Inr (map3 (\<lambda>p. fdiv (Finite (of_nat (fst p) - of_nat (snd p)))
                                 (Finite (of_nat (fst p) + of_nat (snd p)))) c)"
proof -
  have "list_all (list_all (list_all (\<lambda>p.
          fdiv (fsub (Finite (of_nat (fst p))) (Finite (of_nat (snd p))))
               (Finite (of_nat ((fst p + snd p) mod 2 ^ bits)))
          = fdiv (Finite (of_nat (fst p) - of_nat (snd p)))
                 (Finite (of_nat (fst p) + of_nat (snd p)))))) c"
    using assms
    by (auto simp add: list_all_iff fsub_def)
  from map3_cong_all [OF this] show ?thesis
    by (simp add: normalized_difference_def map3_map3 broadcast3_paired)
qed

text \<open>
  C1. On the one-pixel bands with near infrared \<open>40000\<close> and red \<open>30000\<close> the sum
  \<^verbatim>\<open>nir+red\<close> is taken in \<^verbatim>\<open>uint16\<close> and wraps to \<open>4464\<close>, so the pixel
  that \<^verbatim>\<open>generate_ndvi\<close> writes to \<^verbatim>\<open>NDVI.tiff\<close> is
  \<open>10000 / 4464 = 625 / 279\<close>, not the normalized difference \<open>10000 / 70000 = 1 / 7\<close>.
\<close>

theorem generate_ndvi_wraps_sum:
  "map_option pixels (rasters (snd (generate_ndvi ''img'' bright_world)) ''img/R10m/NDVI.tiff'')
     = Some (FloatArray [[[Finite (625 / 279)]]])
   \<and> (40000 - 30000) / (40000 + 30000) = (1 / 7 :: rat)"
  by (simp add: generate_ndvi_def bright_world_def os_path_join_def io_bind_apply os_listdir_def
      dict_get_def rio_open_driver_def rio_open_def red_band_def nir_band_def
      normalized_difference_def broadcast3_def broadcast_def map3_def rio_write_def can_write_def
      os_path_dirname_def os_path_basename_def shape_def fsub_def Let_def add_entry_def)

subsection \<open>update\_downloaded\<close>

text \<open>
  C3. The ledger holds the row of \<open>tile_b\<close>; \<open>tile_a\<close> has just been downloaded.
  After \<^verbatim>\<open>update_downloaded\<close> the ledger still holds the row of \<open>tile_b\<close> alone:
  the frame that \<^verbatim>\<open>df.append\<close> returns is dropped and the frame read is written
  back.
\<close>

theorem update_downloaded_keeps_old_ledger:
  "csvs (snd (update_downloaded box_library ''ledger.csv'' [tile_a] ledger_world)) ''ledger.csv''
     = Some [row_b]"
  by (simp add: update_downloaded_def io_bind_apply read_csv_def to_csv_def ledger_world_def
      can_write_def os_path_dirname_def os_path_basename_def add_entry_def Let_def)

lemma update_downloaded_cases:
  "update_downloaded lib csv_path d w =
     (case csvs w csv_path of
        None \<Rightarrow> to_csv (map (csv_row_of lib) d) csv_path w
      | Some df \<Rightarrow>
          if can_write w csv_path then to_csv df csv_path w
          else to_csv (map (csv_row_of lib) d) csv_path w)"
  by (simp add: update_downloaded_def io_bind_apply read_csv_def to_csv_def Let_def
      split: option.splits)

text \<open>
  C7, as the claim states it, fails: with a ledger path in a directory that does not exist
  the read fails, the fallback \<^verbatim>\<open>to_csv\<close> in the \<^verbatim>\<open>except\<close> clause fails
  too, and its exception leaves \<^verbatim>\<open>update_downloaded\<close>.
\<close>

theorem update_downloaded_missing_directory:
  "update_downloaded box_library ''nodir/ledger.csv'' [tile_a] ledger_world
     = (Inl OSError, ledger_world)"
  by (simp add: update_downloaded_def io_bind_apply read_csv_def to_csv_def ledger_world_def
      can_write_def os_path_dirname_def Let_def)

text \<open>
  C7, amended. When reading the ledger fails (no CSV at the path) or writing it back fails
  (the path cannot be opened for writing), \<^verbatim>\<open>update_downloaded\<close> does what writing
  the downloaded products as a fresh CSV at that path does; and an exception leaves
  \<^verbatim>\<open>update_downloaded\<close> only as the exception of that fallback write.
\<close>

theorem update_downloaded_fallback:
  "(csvs w csv_path = None \<or> \<not> can_write w csv_path \<longrightarrow>
      update_downloaded lib csv_path d w = to_csv (map (csv_row_of lib) d) csv_path w)
   \<and> (fst (update_downloaded lib csv_path d w) = Inl e \<longrightarrow>
        update_downloaded lib csv_path d w = to_csv (map (csv_row_of lib) d) csv_path w
        \<and> \<not> can_write w csv_path)"
  by (auto simp add: update_downloaded_cases to_csv_def split: option.splits if_splits)

theorem update_downloaded_fallback_witness:
  "csvs ledger_world ''new.csv'' = None
   \<and> csvs (snd (update_downloaded box_library ''new.csv'' [tile_a] ledger_world)) ''new.csv''
       = Some [csv_row_of box_library tile_a]
   \<and> fst (update_downloaded box_library ''nodir/ledger.csv'' [tile_a] ledger_world) = Inl OSError
   \<and> \<not> can_write ledger_world ''nodir/ledger.csv''"
proof -
  have none: "csvs ledger_world ''new.csv'' = None"
    by (simp add: ledger_world_def)
  have fresh:
    "csvs (snd (to_csv (map (csv_row_of box_library) [tile_a]) ''new.csv'' ledger_world)) ''new.csv''
       = Some [csv_row_of box_library tile_a]"
    by (simp add: to_csv_def can_write_def os_path_dirname_def os_path_basename_def add_entry_def
        ledger_world_def)
  have raised:
    "fst (update_downloaded box_library ''nodir/ledger.csv'' [tile_a] ledger_world) = Inl OSError"
    by (simp add: update_downloaded_def io_bind_apply read_csv_def to_csv_def ledger_world_def
        can_write_def os_path_dirname_def Let_def)
  from update_downloaded_fallback [of ledger_world "''new.csv''" box_library "[tile_a]" OSError] none
  have "update_downloaded box_library ''new.csv'' [tile_a] ledger_world
          = to_csv (map (csv_row_of box_library) [tile_a]) ''new.csv'' ledger_world"
    by blast
  moreover
  from update_downloaded_fallback
         [of ledger_world "''nodir/ledger.csv''" box_library "[tile_a]" OSError] raised
  have "\<not> can_write ledger_world ''nodir/ledger.csv''"
    by blast
  ultimately show ?thesis
    using none fresh raised by simp
qed

subsection \<open>full\_pipe\<close>

lemma full_pipe_never_completes:
  "full_pipe lib csv_path polygon intial_date final_date database_path threshold cloudcover w =
     (case api_query lib polygon intial_date final_date cloudcover of
        Inl e \<Rightarrow> (Inl e, w)
      | Inr products \<Rightarrow> (Inl AttributeError, w))"
  by (simp add: full_pipe_def get_products_def download_folders_def io_bind_apply split: sum.splits)

text \<open>
  C5. \<^verbatim>\<open>full_pipe\<close> with a ledger, a polygon inside the footprint of the one product
  the archive offers, and the database directory \<^verbatim>\<open>db\<close>: the query succeeds,
  \<^verbatim>\<open>download_folders\<close> receives the database path as its \<open>products\<close> and raises
  AttributeError at \<^verbatim>\<open>products.iterrows()\<close>. Nothing is downloaded and the ledger is
  not touched: the world is as it was.
\<close>

theorem full_pipe_raises_attribute_error:
  "full_pipe box_library ''ledger.csv'' (Polygon (1, 1, 2, 2)) ''20200101'' ''20200301'' ''db''
      (9 / 10) (0, 10) ledger_world
     = (Inl AttributeError, ledger_world)"
  by (simp add: full_pipe_never_completes box_library_def)

subsection \<open>download\_folders\<close>


lemma download_effect:
  assumes "download lib idx directory_path w = (r, w')" and "listing w d = Some names"
  shows "(\<exists>names'. listing w' d = Some names' \<and> set names \<subseteq> set names')
       \<and> (downloads w' = downloads w \<or> downloads w' = downloads w @ [idx])"
proof (cases "api_download lib idx")
  case (Inl e)
  with assms show ?thesis by (simp add: download_def)
next
  case (Inr archive)
  obtain zipname members where archive: "archive = (zipname, members)" by (cases archive)
  show ?thesis
  proof (cases "can_write w (os_path_join directory_path zipname)")
    case False
    with assms Inr archive show ?thesis by (simp add: download_def)
  next
    case True
    let ?w1 = "w\<lparr>zips := (zips w)(os_path_join directory_path zipname \<mapsto> members),
                  downloads := downloads w @ [idx]\<rparr>"
    have w': "w' = add_entry (os_path_join directory_path zipname) ?w1"
      using assms(1) Inr archive True by (simp add: download_def)
    have "listing ?w1 d = Some names" using assms(2) by simp
    from listing_add_entry_grows [OF this] w' show ?thesis by simp
  qed
qed

lemma zip_extractall_effect:
  assumes "zip_extractall filepath dest w = (r, w')" and "listing w d = Some names"
  shows "(\<exists>names'. listing w' d = Some names' \<and> set names \<subseteq> set names')
       \<and> downloads w' = downloads w"
proof (cases "zips w filepath")
  case None
  with assms show ?thesis by (simp add: zip_extractall_def)
next
  case (Some members)
  show ?thesis
  proof (cases "listing w dest")
    case None
    let ?w1 = "w\<lparr>listing := (listing w)(dest \<mapsto> remdups members)\<rparr>"
    have w': "w' = add_entry dest ?w1"
      using assms(1) Some None by (simp add: zip_extractall_def)
    have "d \<noteq> dest" using None assms(2) by auto
    then have "listing ?w1 d = Some names" using assms(2) by simp
    from listing_add_entry_grows [OF this] w' show ?thesis by simp
  next
    case listed: (Some present)
    with assms Some show ?thesis
      by (auto simp add: zip_extractall_def add_names_def)
  qed
qed

lemma download_folders_row_effect:
  assumes run: "download_folders_row lib polygon regional_poly (PyStr db) threshold row delete w = (r, w')"
    and listed: "listing w db = Some names"
  shows "(\<exists>names'. listing w' db = Some names' \<and> set names \<subseteq> set names')
       \<and> (downloads w' = downloads w
           \<or> downloads w' = downloads w @ [uuid row] \<and> filename row \<notin> set names)"
proof (cases "filename row \<in> set names")
  case True
  with run listed have "w' = w"
    by (auto simp add: download_folders_row_def io_bind_apply os_listdir_def Let_def
        split: sum.splits if_splits)
  with listed show ?thesis by simp
next
  case False
  obtain r1 w1 where d: "download lib (uuid row) db w = (r1, w1)"
    by (cases "download lib (uuid row) db w")
  obtain r2 w2 where z: "zip_extractall (os_path_join db (title row @ ''.zip'')) db w1 = (r2, w2)"
    by (cases "zip_extractall (os_path_join db (title row @ ''.zip'')) db w1")
  from download_effect [OF d listed] obtain names1
    where l1: "listing w1 db = Some names1" "set names \<subseteq> set names1"
      and d1: "downloads w1 = downloads w \<or> downloads w1 = downloads w @ [uuid row]"
    by blast
  from zip_extractall_effect [OF z l1(1)] obtain names2
    where l2: "listing w2 db = Some names2" "set names1 \<subseteq> set names2"
      and d2: "downloads w2 = downloads w1"
    by blast
  have "w' = w \<or> w' = w1 \<or> w' = w2"
    using run listed d z
    by (auto simp add: download_folders_row_def io_bind_apply os_listdir_def Let_def
        split: sum.splits if_splits)
  then show ?thesis
    using listed l1 l2 d1 d2 False by auto
qed

lemma download_folders_loop_effect:
  assumes "download_folders_loop lib polygon regional_poly (PyStr db) threshold rows delete w = (r, w')"
    and "listing w db = Some present" and "set names \<subseteq> set present"
  shows "\<exists>fetched. downloads w' = downloads w @ fetched
          \<and> set fetched \<subseteq> uuid ` {p \<in> set rows. filename p \<notin> set names}"
  using assms
proof (induction rows arbitrary: delete w present)
  case Nil
  then show ?case by simp
next
  case (Cons row rows)
  obtain r1 w1 where step:
    "download_folders_row lib polygon regional_poly (PyStr db) threshold row delete w = (r1, w1)"
    by (cases "download_folders_row lib polygon regional_poly (PyStr db) threshold row delete w")
  from download_folders_row_effect [OF step Cons.prems(2)] obtain present1
    where l1: "listing w1 db = Some present1" "set present \<subseteq> set present1"
      and d1: "downloads w1 = downloads w
               \<or> downloads w1 = downloads w @ [uuid row] \<and> filename row \<notin> set present"
    by blast
  have "\<exists>f1. downloads w1 = downloads w @ f1
          \<and> set f1 \<subseteq> uuid ` {p \<in> set (row # rows). filename p \<notin> set names}"
  proof (cases "downloads w1 = downloads w")
    case True
    then have "downloads w1 = downloads w @ []
        \<and> set [] \<subseteq> uuid ` {p \<in> set (row # rows). filename p \<notin> set names}"
      by simp
    then show ?thesis by blast
  next
    case False
    with d1 have fetched: "downloads w1 = downloads w @ [uuid row]" "filename row \<notin> set present"
      by auto
    with Cons.prems(3) have "filename row \<notin> set names" by auto
    then have "row \<in> {p \<in> set (row # rows). filename p \<notin> set names}" by simp
    then have "set [uuid row] \<subseteq> uuid ` {p \<in> set (row # rows). filename p \<notin> set names}"
      by auto
    with fetched(1) show ?thesis by blast
  qed
  then obtain f1 where f1: "downloads w1 = downloads w @ f1"
      "set f1 \<subseteq> uuid ` {p \<in> set (row # rows). filename p \<notin> set names}"
    by blast
  show ?case
  proof (cases r1)
    case (Inl e)
    with Cons.prems(1) step have "w' = w1" by (simp add: io_bind_apply)
    with f1 show ?thesis by blast
  next
    case (Inr delete1)
    with Cons.prems(1) step
    have "download_folders_loop lib polygon regional_poly (PyStr db) threshold rows delete1 w1 = (r, w')"
      by (simp add: io_bind_apply)
    from Cons.IH [OF this l1(1)] Cons.prems(3) l1(2)
    obtain f2 where "downloads w' = downloads w1 @ f2"
      "set f2 \<subseteq> uuid ` {p \<in> set rows. filename p \<notin> set names}"
      by blast
    with f1 have "downloads w' = downloads w @ (f1 @ f2)"
      "set (f1 @ f2) \<subseteq> uuid ` {p \<in> set (row # rows). filename p \<notin> set names}"
      by auto
    then show ?thesis by blast
  qed
qed



lemma set_add_names [simp]: "set (add_names names new) = set names \<union> set new"
  by (auto simp add: add_names_def)









subsection \<open>get\_folders\<close>

lemma get_folders_initial_date_never_returns:
  "get_folders lib self csv_path (Some initial_date) final_date threshold w =
     (case csvs w csv_path of
        None \<Rightarrow> (Inl FileNotFoundError, w)
      | Some df \<Rightarrow>
          (case parse_dates lib df of
             Inl e \<Rightarrow> (Inl e, w)
           | Inr parsed \<Rightarrow> (Inl UnboundLocalError, w)))"
  by (simp add: get_folders_def io_bind_apply read_csv_def filter_initial_def read_local_def
      split: option.splits sum.splits)

text \<open>
  C6. \<^verbatim>\<open>get_folders\<close> with the initial date \<^verbatim>\<open>'01/02/2020'\<close> on a ledger whose
  one product was ingested on 3 February 2020, after that date: the call returns no
  product, it raises UnboundLocalError at
  \<^verbatim>\<open>intial_date = datetime.datetime.strptime(intial_date, '%d/%m/%Y')\<close>.
\<close>

theorem get_folders_initial_date_raises:
  "get_folders box_library two_fields ''ledger.csv'' (Some ''01/02/2020'') None (97 / 100)
      ledger_world
     = (Inl UnboundLocalError, ledger_world)"
  by (simp add: get_folders_initial_date_never_returns ledger_world_def parse_dates_def row_b_def
      box_library_def)














subsection \<open>mask\_ndvi, mask\_ndre and mask\_tci\<close>




subsection \<open>Outputs that already exist\<close>

text \<open>
  C9. When \<^verbatim>\<open>NDVI.tiff\<close> is listed in the \<^verbatim>\<open>R10m\<close> directory,
  \<^verbatim>\<open>generate_ndvi\<close> returns and leaves the world as it is; likewise
  \<^verbatim>\<open>generate_ndre\<close> when \<^verbatim>\<open>NDRE.tiff\<close> is listed there; and whatever
  \<^verbatim>\<open>download_folders\<close> fetches (whether it returns or raises) belongs to a
  product whose \<open>filename\<close> was not listed in the database directory: a product whose
  filename is present is not downloaded again.
\<close>

theorem existing_output_is_left_alone:
  "(listing w (os_path_join img_path ''R10m'') = Some present \<and> ''NDVI.tiff'' \<in> set present
      \<longrightarrow> generate_ndvi img_path w = (Inr (), w))
   \<and> (listing w (os_path_join img_path ''R10m'') = Some present \<and> ''NDRE.tiff'' \<in> set present
      \<longrightarrow> generate_ndre lib img_path w = (Inr (), w))
   \<and> (listing w database_path = Some names
       \<and> download_folders lib polygon regional_poly (PyFrame products) (PyStr database_path)
            threshold w = (r, w')
      \<longrightarrow> (\<exists>fetched. downloads w' = downloads w @ fetched
             \<and> set fetched \<subseteq> uuid ` {p \<in> set products. filename p \<notin> set names}))"
proof (intro conjI impI)
  assume "listing w (os_path_join img_path ''R10m'') = Some present \<and> ''NDVI.tiff'' \<in> set present"
  then show "generate_ndvi img_path w = (Inr (), w)"
    by (simp add: generate_ndvi_def io_bind_apply os_listdir_def Let_def)
next
  assume "listing w (os_path_join img_path ''R10m'') = Some present \<and> ''NDRE.tiff'' \<in> set present"
  then show "generate_ndre lib img_path w = (Inr (), w)"
    by (simp add: generate_ndre_def io_bind_apply os_listdir_def Let_def)
next
  assume h: "listing w database_path = Some names
       \<and> download_folders lib polygon regional_poly (PyFrame products) (PyStr database_path)
            threshold w = (r, w')"
  obtain r1 w1 where loop:
    "download_folders_loop lib polygon regional_poly (PyStr database_path) threshold products [] w
       = (r1, w1)"
    by (cases "download_folders_loop lib polygon regional_poly (PyStr database_path) threshold
                 products [] w")
  with h have "w' = w1"
    by (cases r1) (auto simp add: download_folders_def io_bind_apply)
  with download_folders_loop_effect [OF loop, of names names] h
  show "\<exists>fetched. downloads w' = downloads w @ fetched
             \<and> set fetched \<subseteq> uuid ` {p \<in> set products. filename p \<notin> set names}"
    by simp
qed

theorem existing_output_is_left_alone_witness:
  "listing index_world (os_path_join ''img'' ''R10m'')
     = Some [''T32_2020_TCI_10m.jp2'', ''NDVI.tiff'', ''NDRE.tiff'']
   \<and> generate_ndvi ''img'' index_world = (Inr (), index_world)
   \<and> generate_ndre box_library ''img'' index_world = (Inr (), index_world)
   \<and> listing ledger_world ''db'' = Some [''S2A_b.SAFE'']
   \<and> filename tile_b = ''S2A_b.SAFE''
   \<and> downloads (snd (download_folders box_library (Polygon (1, 1, 2, 2)) (PyBool False)
                        (PyFrame [tile_b]) (PyStr ''db'') (9 / 10) ledger_world)) = []"
proof -
  let ?run = "download_folders box_library (Polygon (1, 1, 2, 2)) (PyBool False)
                (PyFrame [tile_b]) (PyStr ''db'') (9 / 10) ledger_world"
  have listed: "listing index_world (os_path_join ''img'' ''R10m'')
     = Some [''T32_2020_TCI_10m.jp2'', ''NDVI.tiff'', ''NDRE.tiff'']"
    by (simp add: index_world_def os_path_join_def)
  have db: "listing ledger_world ''db'' = Some [''S2A_b.SAFE'']"
    by (simp add: ledger_world_def)
  have stored: "filename tile_b = ''S2A_b.SAFE''"
    by (simp add: tile_b_def)
  have run: "?run = (fst ?run, snd ?run)" by simp
  note t = existing_output_is_left_alone
      [of index_world "''img''" "[''T32_2020_TCI_10m.jp2'', ''NDVI.tiff'', ''NDRE.tiff'']"
          box_library]
  from t listed have ndvi: "generate_ndvi ''img'' index_world = (Inr (), index_world)"
    by simp
  from t listed have ndre: "generate_ndre box_library ''img'' index_world = (Inr (), index_world)"
    by simp
  from existing_output_is_left_alone
      [of ledger_world "''img''" "[]" box_library "''db''" "[''S2A_b.SAFE'']" "Polygon (1, 1, 2, 2)"
          "PyBool False" "[tile_b]" "9 / 10" "fst ?run" "snd ?run"] db run
  obtain fetched where fetched: "downloads (snd ?run) = downloads ledger_world @ fetched"
    "set fetched \<subseteq> uuid ` {p \<in> set [tile_b]. filename p \<notin> set [''S2A_b.SAFE'']}"
    by blast
  from stored have none: "{p \<in> set [tile_b]. filename p \<notin> set [''S2A_b.SAFE'']} = {}"
    by auto
  from fetched(2) have "fetched = []"
    unfolding none by simp
  with fetched(1) have "downloads (snd ?run) = []"
    by (simp add: ledger_world_def)
  with listed ndvi ndre db stored show ?thesis by simp
qed

end
